theory Spec2Isabelle
  imports Main "HOL-Library.Sublist"
begin

section \<open>The legacy route that deletes an alert\<close>

text \<open>
  Source: \<^verbatim>\<open>x-pack/plugins/alerting/server/routes/legacy/delete.ts\<close>.
  The handler is asynchronous JavaScript; a thrown value or a rejected promise is the
  left summand of a result, and the effects on the collaborators of the handler are
  threaded through a \<open>world\<close>.
\<close>

subsection \<open>Values\<close>

text \<open>A thrown JavaScript error, by its message.\<close>

datatype error = Error string

text \<open>An HTTP response: the status code, and the body when there is one.\<close>

record response =
  status :: nat
  body :: "string option"

text \<open>
  Modelled from the spec: the response factory \<^verbatim>\<open>res\<close> of the HTTP framework is not
  under src/. \<^verbatim>\<open>res.noContent()\<close> is "HTTP 204 with empty body", and
  \<^verbatim>\<open>res.badRequest({ body })\<close> is "HTTP 400 with a plain-text body".
\<close>

definition noContent :: response where
  "noContent = \<lparr>status = 204, body = None\<rparr>"

definition badRequest :: "string \<Rightarrow> response" where
  "badRequest b = \<lparr>status = 400, body = Some b\<rparr>"

text \<open>A value of a raw request parameter, before validation.\<close>

datatype jsvalue = JString string | JNumber int | JBool bool | JNull

text \<open>The validated parameters of the route, \<^verbatim>\<open>{ id: string }\<close>, and the request.\<close>

record params_t =
  id' :: string

record request =
  params :: params_t

subsection \<open>Collaborators\<close>

text \<open>
  The rules client: \<^verbatim>\<open>rulesClient.delete({ id })\<close> resolves, or rejects with an
  error. The alerting context hands the client out through \<^verbatim>\<open>getRulesClient()\<close>,
  which returns it or throws. \<^verbatim>\<open>context.alerting\<close> is absent when the alerting
  context is not registered, and is otherwise a promise that resolves to the alerting
  context or rejects.
\<close>

record rules_client =
  delete :: "string \<Rightarrow> error option"

record alerting_api =
  getRulesClient :: "error + rules_client"

record request_handler_context =
  alerting :: "(error + alerting_api) option"

text \<open>
  The imports of the module that are not under src/, taken as parameters:
  \<^verbatim>\<open>verifyApiAccess(licenseState)\<close> returns or throws;
  \<^verbatim>\<open>trackLegacyRouteUsage(route, usageCounter)\<close> acts on the usage counter handed to
  the route (\<open>'uc\<close> is the state of that counter, an absent counter included);
  \<^verbatim>\<open>LEGACY_BASE_ALERT_API_PATH\<close> is a string.
\<close>

record ('ls, 'uc) lib =
  verifyApiAccess :: "'ls \<Rightarrow> error option"
  trackLegacyRouteUsage :: "string \<Rightarrow> 'uc \<Rightarrow> 'uc"
  LEGACY_BASE_ALERT_API_PATH :: string

text \<open>
  What a handler can change: the usage counter, and the calls it has made on the
  tracking helper and on the rules client, oldest first.
\<close>

datatype call = TrackLegacyRouteUsage string | RulesClientDelete string

record 'uc world =
  usageCounter :: 'uc
  calls :: "call list"

type_synonym 'uc handler =
  "request_handler_context \<Rightarrow> request \<Rightarrow> 'uc world \<Rightarrow> (error + response) \<times> 'uc world"

subsection \<open>The handler\<close>

text \<open>
  The function passed to \<^verbatim>\<open>router.handleLegacyErrors\<close>, statement by statement:
  the licence check, the guard on \<^verbatim>\<open>context.alerting\<close>, the usage tracking,
  the rules client, the deletion, and the answer.
\<close>

definition deleteAlertHandler ::
  "('ls, 'uc) lib \<Rightarrow> 'ls \<Rightarrow> 'uc handler" where
  "deleteAlertHandler l licenseState context req w =
     (case verifyApiAccess l licenseState of
        Some e \<Rightarrow> (Inl e, w)
      | None \<Rightarrow>
          (case alerting context of
             None \<Rightarrow> (Inr (badRequest ''RouteHandlerContext is not registered for alerting''), w)
           | Some promise \<Rightarrow>
               let w1 = w\<lparr>usageCounter := trackLegacyRouteUsage l ''delete'' (usageCounter w),
                          calls := calls w @ [TrackLegacyRouteUsage ''delete'']\<rparr>
               in (case promise of
                     Inl e \<Rightarrow> (Inl e, w1)
                   | Inr api \<Rightarrow>
                       (case getRulesClient api of
                          Inl e \<Rightarrow> (Inl e, w1)
                        | Inr rulesClient \<Rightarrow>
                            let i = id' (params req);
                                w2 = w1\<lparr>calls := calls w1 @ [RulesClientDelete i]\<rparr>
                            in (case delete rulesClient i of
                                  Some e \<Rightarrow> (Inl e, w2)
                                | None \<Rightarrow> (Inr noContent, w2))))))"

subsection \<open>The route\<close>

datatype http_method = GET | POST | PUT | PATCH | DELETE

record route_options =
  access :: string
  summary :: string
  tags :: "string list"
  deprecated :: bool

text \<open>
  A registered route. Its parameter schema is held as the validation it performs: the
  validated parameters, or nothing when the raw parameters do not conform.
\<close>

record 'uc route =
  route_method :: http_method
  path :: string
  validate_params :: "(string \<rightharpoonup> jsvalue) \<Rightarrow> params_t option"
  options :: route_options
  route_handler :: "'uc handler"

text \<open>
  The router: the routes registered so far, and its \<^verbatim>\<open>handleLegacyErrors\<close>, which
  wraps a handler into a handler. The wrapper is not under src/; it is a parameter.
\<close>

record 'uc router =
  routes :: "'uc route list"
  handleLegacyErrors :: "'uc handler \<Rightarrow> 'uc handler"

text \<open>
  Modelled from the spec: the schema library is not under src/. \<^verbatim>\<open>schema.string()\<close>
  accepts the strings, and \<^verbatim>\<open>schema.object({ id: schema.string() })\<close> is the spec's
  "path parameter \<open>id\<close> (string, required)".
\<close>

definition schema_string :: "jsvalue \<Rightarrow> string option" where
  "schema_string v = (case v of JString s \<Rightarrow> Some s | _ \<Rightarrow> None)"

definition paramSchema :: "(string \<rightharpoonup> jsvalue) \<Rightarrow> params_t option" where
  "paramSchema raw =
     (case raw ''id'' of
        None \<Rightarrow> None
      | Some v \<Rightarrow> map_option (\<lambda>s. \<lparr>id' = s\<rparr>) (schema_string v))"

text \<open>
  \<^verbatim>\<open>router.delete(config, handler)\<close> registers a route of method DELETE. Of the
  arguments of \<^verbatim>\<open>deleteAlertRoute\<close>, the usage counter is an object that the handler
  changes through \<^verbatim>\<open>trackLegacyRouteUsage\<close> only: it is the \<open>usageCounter\<close> of the
  world. \<^verbatim>\<open>isServerless\<close> is optional, and tested for truth.
\<close>

definition router_delete ::
  "'uc router \<Rightarrow> string \<Rightarrow> ((string \<rightharpoonup> jsvalue) \<Rightarrow> params_t option) \<Rightarrow> route_options
     \<Rightarrow> 'uc handler \<Rightarrow> 'uc router" where
  "router_delete router p v opts h =
     router\<lparr>routes := routes router @
       [\<lparr>route_method = DELETE, path = p, validate_params = v, options = opts, route_handler = h\<rparr>]\<rparr>"

definition deleteAlertRoute ::
  "('ls, 'uc) lib \<Rightarrow> 'uc router \<Rightarrow> 'ls \<Rightarrow> bool option \<Rightarrow> 'uc router" where
  "deleteAlertRoute l router licenseState isServerless =
     router_delete router
       (LEGACY_BASE_ALERT_API_PATH l @ ''/alert/{id}'')
       paramSchema
       \<lparr>access = (if isServerless = Some True then ''internal'' else ''public''),
        summary = ''Delete an alert'',
        tags = [''oas-tag:alerting''],
        deprecated = True\<rparr>
       (handleLegacyErrors router (deleteAlertHandler l licenseState))"

text \<open>
  Modelled from the spec: the dispatch of the HTTP framework is not under src/. A raw
  request is validated against the route's schema first; one that does not conform is
  rejected and the handler does not run, otherwise the handler runs on the validated
  parameters.
\<close>

datatype dispatched = Rejected | Handled "error + response"

definition dispatch ::
  "'uc route \<Rightarrow> request_handler_context \<Rightarrow> (string \<rightharpoonup> jsvalue) \<Rightarrow> 'uc world
     \<Rightarrow> dispatched \<times> 'uc world" where
  "dispatch r context raw w =
     (case validate_params r raw of
        None \<Rightarrow> (Rejected, w)
      | Some p \<Rightarrow>
          (case route_handler r context \<lparr>params = p\<rparr> w of
             (res, w') \<Rightarrow> (Handled res, w')))"

text \<open>The route that \<^verbatim>\<open>deleteAlertRoute\<close> registers: the last one of the router.\<close>

definition deleteRoute ::
  "('ls, 'uc) lib \<Rightarrow> 'uc router \<Rightarrow> 'ls \<Rightarrow> bool option \<Rightarrow> 'uc route" where
  "deleteRoute l router licenseState isServerless =
     last (routes (deleteAlertRoute l router licenseState isServerless))"

subsection \<open>Concrete collaborators\<close>

text \<open>
  A library whose licence check returns, and one whose licence check throws; the usage
  counter is a number that tracking increments. A context that yields a rules client
  whose deletion resolves, and a context without \<^verbatim>\<open>alerting\<close>. A router whose wrapper
  answers a thrown error with status 500, and a fresh world.
\<close>

definition licensed :: "(unit, nat) lib" where
  "licensed =
     \<lparr>verifyApiAccess = (\<lambda>licenseState. None),
      trackLegacyRouteUsage = (\<lambda>r n. Suc n),
      LEGACY_BASE_ALERT_API_PATH = ''/api/alerts''\<rparr>"

definition unlicensed :: "(unit, nat) lib" where
  "unlicensed = licensed\<lparr>verifyApiAccess := (\<lambda>licenseState. Some (Error ''License is not valid''))\<rparr>"

definition registered_context :: request_handler_context where
  "registered_context =
     \<lparr>alerting = Some (Inr \<lparr>getRulesClient = Inr \<lparr>delete = (\<lambda>i. None)\<rparr>\<rparr>)\<rparr>"

definition unregistered_context :: request_handler_context where
  "unregistered_context = \<lparr>alerting = None\<rparr>"

definition plain_router :: "nat router" where
  "plain_router =
     \<lparr>routes = [],
      handleLegacyErrors =
        (\<lambda>h context req w.
           case h context req w of
             (Inl (Error m), w') \<Rightarrow> (Inr \<lparr>status = 500, body = Some m\<rparr>, w')
           | (Inr res, w') \<Rightarrow> (Inr res, w'))\<rparr>"

definition fresh_world :: "nat world" where
  "fresh_world = \<lparr>usageCounter = 0, calls = []\<rparr>"

section \<open>The rule definition step: switching the rule type\<close>

text \<open>
  Source: the form component \<^verbatim>\<open>StepDefineRuleComponent\<close> (src/unnamed/part_000), its
  two effects on the query field that depend on \<^verbatim>\<open>[ruleType, previousRuleType, getFields]\<close>.
\<close>

subsection \<open>The data of the form\<close>

text \<open>
  Modelled from the spec: the type of rule types is not under src/. The glossary lists
  the detection strategies "query, threshold, EQL, ES|QL, ML, threat-match, new-terms".
\<close>

datatype rule_type = Query | Threshold | Eql | Esql | MachineLearning | ThreatMatch | NewTerms

text \<open>
  Modelled from the spec: the type of the query field's value is not under src/. It is
  the spec's "query specification (query text + query language tag)", read by the
  component as \<^verbatim>\<open>value.query.query\<close> and \<^verbatim>\<open>value.query.language\<close>.
\<close>

record es_query =
  query_text :: string
  language :: string

record query_bar =
  query :: es_query

text \<open>
  Modelled from the spec: \<^verbatim>\<open>defaultCustomQuery\<close> is not under src/. The comments of the
  component give the query texts: the default of the normal rules is the empty query,
  that of the threat-match rules is \<^verbatim>\<open>*:*\<close>. The ES|QL default is an empty query of
  the language \<^verbatim>\<open>esql\<close>, the language the component tests for; the other two are of
  the query language \<^verbatim>\<open>kuery\<close>.
\<close>

record default_custom_query =
  forNormalRules :: query_bar
  forThreatMatchRules :: query_bar
  forEsqlRules :: query_bar

definition defaultCustomQuery :: default_custom_query where
  "defaultCustomQuery =
     \<lparr>forNormalRules = \<lparr>query = \<lparr>query_text = '''', language = ''kuery''\<rparr>\<rparr>,
      forThreatMatchRules = \<lparr>query = \<lparr>query_text = ''*:*'', language = ''kuery''\<rparr>\<rparr>,
      forEsqlRules = \<lparr>query = \<lparr>query_text = '''', language = ''esql''\<rparr>\<rparr>\<rparr>"

text \<open>
  Modelled from the spec: the predicates on rule types are not under src/. Each tests
  for one rule type, and is false of an undefined rule type.
\<close>

definition isThreatMatchRule :: "rule_type option \<Rightarrow> bool" where
  "isThreatMatchRule t = (t = Some ThreatMatch)"

definition isEsqlRule :: "rule_type option \<Rightarrow> bool" where
  "isEsqlRule t = (t = Some Esql)"

definition isEqlRule :: "rule_type option \<Rightarrow> bool" where
  "isEqlRule t = (t = Some Eql)"

text \<open>
  The state of the component that the two effects read and write:
  \<^verbatim>\<open>getFields().queryBar\<close>, by the value of the field, absent while the form has no such
  field; the reference \<^verbatim>\<open>esqlQueryRef\<close>, undefined at first; and what
  \<^verbatim>\<open>usePrevious(ruleType)\<close> returns, the rule type of the render before, undefined at
  the first render.
\<close>

record step_define_rule =
  queryBar :: "query_bar option"
  esqlQueryRef :: "query_bar option"
  previousRuleType :: "rule_type option"

text \<open>
  Modelled from the spec: the form library is not under src/.
  \<^verbatim>\<open>currentQuery.reset({ defaultValue })\<close> resets the field to the given default value.
\<close>

definition reset :: "query_bar \<Rightarrow> step_define_rule \<Rightarrow> step_define_rule" where
  "reset defaultValue s = s\<lparr>queryBar := Some defaultValue\<rparr>"

subsection \<open>The two effects\<close>

text \<open>
  The effect on the custom query (lines 290 to 333). \<^verbatim>\<open>isEqual\<close> is deep equality,
  which is equality of the values here. The first reset returns from the effect; in
  every other case the effect goes on to its second test, \<open>leaving\<close>.
\<close>

definition customQueryEffect ::
  "rule_type \<Rightarrow> rule_type option \<Rightarrow> step_define_rule \<Rightarrow> step_define_rule" where
  "customQueryEffect ruleType previous s =
     (case queryBar s of
        None \<Rightarrow> s
      | Some currentQueryValue \<Rightarrow>
          let leaving =
                (if \<not> isThreatMatchRule (Some ruleType) \<and> isThreatMatchRule previous
                 then (if currentQueryValue = forThreatMatchRules defaultCustomQuery
                       then reset (forNormalRules defaultCustomQuery) s
                       else s)
                 else s)
          in if isThreatMatchRule (Some ruleType) \<and> \<not> isThreatMatchRule previous
             then (if currentQueryValue = forNormalRules defaultCustomQuery
                   then reset (forThreatMatchRules defaultCustomQuery) s
                   else leaving)
             else leaving)"

text \<open>The effect that keeps the ES|QL query (lines 340 to 370).\<close>

definition esqlQueryEffect ::
  "rule_type \<Rightarrow> rule_type option \<Rightarrow> step_define_rule \<Rightarrow> step_define_rule" where
  "esqlQueryEffect ruleType previous s =
     (case queryBar s of
        None \<Rightarrow> s
      | Some currentQueryValue \<Rightarrow>
          if isEsqlRule (Some ruleType)
          then (if previous \<noteq> None \<and> \<not> isEsqlRule previous
                then reset (case esqlQueryRef s of
                              Some saved \<Rightarrow> saved
                            | None \<Rightarrow> forEsqlRules defaultCustomQuery) s
                else s)
          else if isEsqlRule previous
          then (let s1 = (if language (query currentQueryValue) = ''esql''
                          then s\<lparr>esqlQueryRef := Some currentQueryValue\<rparr>
                          else s);
                    defaultValue = (if isThreatMatchRule (Some ruleType)
                                    then forThreatMatchRules defaultCustomQuery
                                    else forNormalRules defaultCustomQuery)
                in reset defaultValue s1)
          else s)"

text \<open>
  The query component that the component renders (lines 753 to 772 of its markup): for an
  EQL rule \<^verbatim>\<open>EqlQueryEdit\<close> with the key \<^verbatim>\<open>eqlQueryBar\<close>, for every other rule the
  field \<^verbatim>\<open>UseField\<close> with the key \<^verbatim>\<open>QueryBarDefineRule\<close>, both on the path
  \<^verbatim>\<open>queryBar\<close>. A render that changes between the two replaces the component: the old
  one is unmounted and a new one is mounted in its place. A change between ES|QL and the
  remaining rule types keeps the component.
\<close>

definition fieldReplaced :: "rule_type \<Rightarrow> rule_type option \<Rightarrow> bool" where
  "fieldReplaced ruleType previous =
     (previous \<noteq> None \<and> isEqlRule (Some ruleType) \<noteq> isEqlRule previous)"

text \<open>
  What \<^verbatim>\<open>getFields().queryBar\<close> is once the component has been replaced is decided by
  the form library, which is not under src/. It is the argument \<open>mounted\<close>: the field
  that the effects of this render find at the path, by its value, or nothing when they
  find none. The comment on the second effect says that a switch to EQL loses the query.
\<close>

definition mountQueryField ::
  "rule_type \<Rightarrow> query_bar option \<Rightarrow> step_define_rule \<Rightarrow> step_define_rule" where
  "mountQueryField ruleType mounted s =
     (if fieldReplaced ruleType (previousRuleType s) then s\<lparr>queryBar := mounted\<rparr> else s)"

text \<open>
  A render of the component with the rule type \<open>ruleType\<close>: the query component is
  replaced where the markup says so, the two effects run in the order of the source, on
  the previous rule type of this render, and the render becomes the previous one of the
  next.
\<close>

definition render ::
  "rule_type \<Rightarrow> query_bar option \<Rightarrow> step_define_rule \<Rightarrow> step_define_rule" where
  "render ruleType mounted s =
     (esqlQueryEffect ruleType (previousRuleType s)
        (customQueryEffect ruleType (previousRuleType s)
           (mountQueryField ruleType mounted s)))
     \<lparr>previousRuleType := Some ruleType\<rparr>"

text \<open>
  What happens to the form between two rule types: the user types a query into the
  field, or the component renders again with a rule type, and with the field that the
  form library mounts should this render replace the query component.
\<close>

datatype form_event = UserSetsQuery query_bar | Render rule_type "query_bar option"

fun form_step :: "form_event \<Rightarrow> step_define_rule \<Rightarrow> step_define_rule" where
  "form_step (UserSetsQuery v) s = (case queryBar s of None \<Rightarrow> s | Some _ \<Rightarrow> s\<lparr>queryBar := Some v\<rparr>)"
| "form_step (Render t mounted) s = render t mounted s"

fun form_run :: "form_event list \<Rightarrow> step_define_rule \<Rightarrow> step_define_rule" where
  "form_run [] s = s"
| "form_run (e # es) s = form_run es (form_step e s)"

text \<open>A render with the rule type ES|QL or EQL.\<close>

fun is_esql_or_eql_render :: "form_event \<Rightarrow> bool" where
  "is_esql_or_eql_render (Render t mounted) = (t = Esql \<or> t = Eql)"
| "is_esql_or_eql_render (UserSetsQuery v) = False"

text \<open>
  The type-specific default of a rule type: the value that the effects reset the field to
  for a rule of that type, the threat-match default, the ES|QL default, and the default
  of the normal rules for every other type and for an undefined one.
\<close>

definition defaultFor :: "rule_type option \<Rightarrow> query_bar" where
  "defaultFor t =
     (if isThreatMatchRule t then forThreatMatchRules defaultCustomQuery
      else if isEsqlRule t then forEsqlRules defaultCustomQuery
      else forNormalRules defaultCustomQuery)"

text \<open>
  The ES|QL query \<open>v\<close> is kept: the field is there, the reference holds \<open>v\<close>, and the
  component has rendered with a rule type other than ES|QL and EQL.
\<close>

definition esql_kept :: "query_bar \<Rightarrow> step_define_rule \<Rightarrow> bool" where
  "esql_kept v s =
     (queryBar s \<noteq> None \<and> esqlQueryRef s = Some v \<and> previousRuleType s \<noteq> None \<and>
      previousRuleType s \<noteq> Some Esql \<and> previousRuleType s \<noteq> Some Eql)"

text \<open>Two queries that a user has typed, one in each language.\<close>

definition user_query :: query_bar where
  "user_query = \<lparr>query = \<lparr>query_text = ''host.name: foo'', language = ''kuery''\<rparr>\<rparr>"

definition user_esql_query :: query_bar where
  "user_esql_query = \<lparr>query = \<lparr>query_text = ''FROM logs*'', language = ''esql''\<rparr>\<rparr>"

section \<open>The dashboard as the functional tests drive it\<close>

text \<open>
  Sources: \<^verbatim>\<open>dashboard_error_handling.ts\<close> and \<^verbatim>\<open>interval_control.ts\<close> under
  \<^verbatim>\<open>src/platform/test/functional/apps/dashboard\<close>. Both are scripts that drive the
  running application; the application is not under src/.
\<close>

subsection \<open>A dashboard with a missing data view\<close>

text \<open>
  Modelled from the spec: the dashboard application is not under src/. A saved dashboard
  has panels, each on a data view named by its id. Loading the dashboard renders every
  panel; a panel whose data view is not among the saved objects becomes an embeddable
  error, and "loading a dashboard referencing a missing data view surfaces the text
  'Could not locate that data view'". What follows that text in the message is the
  parameter \<open>detail\<close>.
\<close>

record panel =
  panel_title :: string
  dataViewId :: string

record saved_dashboard =
  dashboard_title :: string
  panels :: "panel list"

datatype embeddable = Embeddable string | EmbeddableError string

definition renderPanel :: "(string \<Rightarrow> string) \<Rightarrow> string list \<Rightarrow> panel \<Rightarrow> embeddable" where
  "renderPanel detail dataViews p =
     (if dataViewId p \<in> set dataViews
      then Embeddable (panel_title p)
      else EmbeddableError (''Could not locate that data view'' @ detail (dataViewId p)))"

definition loadSavedDashboard ::
  "(string \<Rightarrow> string) \<Rightarrow> string list \<Rightarrow> saved_dashboard \<Rightarrow> embeddable list" where
  "loadSavedDashboard detail dataViews d = map (renderPanel detail dataViews) (panels d)"

text \<open>
  What the test reads: the visible text of the first embeddable error on the page, when
  there is one.
\<close>

fun embeddableError :: "embeddable list \<Rightarrow> string option" where
  "embeddableError [] = None"
| "embeddableError (EmbeddableError t # es) = Some t"
| "embeddableError (Embeddable t # es) = embeddableError es"

subsection \<open>An interval control for an ES|QL panel\<close>

text \<open>
  Modelled from the spec: the ES|QL editor and the control flyout are not under src/.
  The editor holds the text on the two sides of the cursor. The test types a query, which
  leaves the cursor at its end, presses the left arrow and the space bar, and accepts the
  suggestion to create a control; creating the control "rewrites the query to include a
  \<open>?interval\<close> placeholder", at the cursor.
\<close>

record esql_editor =
  before_cursor :: string
  after_cursor :: string

definition typeEsqlEditorQuery :: "string \<Rightarrow> esql_editor" where
  "typeEsqlEditorQuery q = \<lparr>before_cursor = q, after_cursor = ''''\<rparr>"

definition pressArrowLeft :: "esql_editor \<Rightarrow> esql_editor" where
  "pressArrowLeft e =
     (if before_cursor e = [] then e
      else \<lparr>before_cursor = butlast (before_cursor e),
            after_cursor = last (before_cursor e) # after_cursor e\<rparr>)"

definition pressSpace :: "esql_editor \<Rightarrow> esql_editor" where
  "pressSpace e = e\<lparr>before_cursor := before_cursor e @ '' ''\<rparr>"

definition createIntervalControl :: "esql_editor \<Rightarrow> esql_editor" where
  "createIntervalControl e = e\<lparr>before_cursor := before_cursor e @ ''?interval''\<rparr>"

definition getEsqlEditorQuery :: "esql_editor \<Rightarrow> string" where
  "getEsqlEditorQuery e = before_cursor e @ after_cursor e"

section \<open>Properties of the legacy delete route\<close>

subsection \<open>What the handler returns and what it throws\<close>

lemma handler_throws:
  "(fst (deleteAlertHandler l licenseState context req w) = Inl e) =
     (verifyApiAccess l licenseState = Some e \<or>
      verifyApiAccess l licenseState = None \<and>
        (alerting context = Some (Inl e) \<or>
         (\<exists>api. alerting context = Some (Inr api) \<and>
            (getRulesClient api = Inl e \<or>
             (\<exists>rulesClient. getRulesClient api = Inr rulesClient \<and>
                delete rulesClient (id' (params req)) = Some e)))))"
  by (auto simp: deleteAlertHandler_def Let_def split: option.splits sum.splits)

lemma handler_answers:
  "(fst (deleteAlertHandler l licenseState context req w) = Inr r) =
     (verifyApiAccess l licenseState = None \<and>
        (alerting context = None \<and>
           r = badRequest ''RouteHandlerContext is not registered for alerting'' \<or>
         (\<exists>api rulesClient. alerting context = Some (Inr api) \<and>
            getRulesClient api = Inr rulesClient \<and>
            delete rulesClient (id' (params req)) = None \<and> r = noContent)))"
  by (auto simp: deleteAlertHandler_def Let_def split: option.splits sum.splits)

lemma paramSchema_Some: "(paramSchema raw = Some p) = (raw ''id'' = Some (JString (id' p)))"
  by (cases p) (auto simp: paramSchema_def schema_string_def split: option.splits jsvalue.splits)

lemma paramSchema_None: "(paramSchema raw = None) = (\<forall>s. raw ''id'' \<noteq> Some (JString s))"
  by (auto simp: paramSchema_def schema_string_def split: option.splits jsvalue.splits)

text \<open>
  C1 (as amended). For every request in which the licence check passes and the alerting
  context is available and yields a rules client, the handler calls the client's
  \<^verbatim>\<open>delete\<close> once, with exactly the id of the request's path parameters, after
  the usage tracking; when that call succeeds the handler returns HTTP 204 with an empty
  body, and when it fails the error is thrown on.
\<close>

theorem delete_forwards_id:
  "verifyApiAccess l licenseState = None \<Longrightarrow>
   alerting context = Some (Inr api) \<Longrightarrow>
   getRulesClient api = Inr rulesClient \<Longrightarrow>
   calls (snd (deleteAlertHandler l licenseState context req w)) =
     calls w @ [TrackLegacyRouteUsage ''delete'', RulesClientDelete (id' (params req))] \<and>
   fst (deleteAlertHandler l licenseState context req w) =
     (case delete rulesClient (id' (params req)) of
        None \<Rightarrow> Inr noContent
      | Some e \<Rightarrow> Inl e) \<and>
   status noContent = 204 \<and> body noContent = None"
  by (simp add: deleteAlertHandler_def noContent_def Let_def split: option.splits)

theorem delete_forwards_id_witness:
  "verifyApiAccess licensed () = None \<and>
   fst (deleteAlertHandler licensed () registered_context \<lparr>params = \<lparr>id' = ''1''\<rparr>\<rparr> fresh_world) =
     Inr \<lparr>status = 204, body = None\<rparr> \<and>
   calls (snd (deleteAlertHandler licensed () registered_context
       \<lparr>params = \<lparr>id' = ''1''\<rparr>\<rparr> fresh_world)) =
     [TrackLegacyRouteUsage ''delete'', RulesClientDelete ''1'']"
  using delete_forwards_id
    [of licensed "()" registered_context
        "\<lparr>getRulesClient = Inr \<lparr>delete = (\<lambda>i. None)\<rparr>\<rparr>" "\<lparr>delete = (\<lambda>i. None)\<rparr>"
        "\<lparr>params = \<lparr>id' = ''1''\<rparr>\<rparr>" fresh_world]
  by (simp add: licensed_def registered_context_def fresh_world_def noContent_def)

text \<open>
  C1 as stated fails where the licence check throws: the context is available, yet the
  handler throws before it reaches the rules client, and nothing is deleted.
\<close>

theorem delete_forwards_id_counterexample:
  "alerting registered_context \<noteq> None \<and>
   deleteAlertHandler unlicensed () registered_context \<lparr>params = \<lparr>id' = ''1''\<rparr>\<rparr> fresh_world =
     (Inl (Error ''License is not valid''), fresh_world)"
  by (simp add: deleteAlertHandler_def unlicensed_def licensed_def registered_context_def)

text \<open>
  C2 (as amended). For every request in which \<^verbatim>\<open>context.alerting\<close> is absent, the
  handler leaves the world as it was, so the rules client's \<^verbatim>\<open>delete\<close> is not
  invoked; and when the licence check passes, it returns HTTP 400 with a plain-text body.
\<close>

theorem missing_context_bad_request:
  "alerting context = None \<Longrightarrow>
   snd (deleteAlertHandler l licenseState context req w) = w \<and>
   (verifyApiAccess l licenseState = None \<longrightarrow>
      fst (deleteAlertHandler l licenseState context req w) =
        Inr (badRequest ''RouteHandlerContext is not registered for alerting'')) \<and>
   status (badRequest b) = 400 \<and> body (badRequest b) = Some b"
  by (simp add: deleteAlertHandler_def badRequest_def split: option.splits)

theorem missing_context_bad_request_witness:
  "alerting unregistered_context = None \<and> verifyApiAccess licensed () = None \<and>
   deleteAlertHandler licensed () unregistered_context \<lparr>params = \<lparr>id' = ''1''\<rparr>\<rparr> fresh_world =
     (Inr \<lparr>status = 400, body = Some ''RouteHandlerContext is not registered for alerting''\<rparr>,
      fresh_world)"
  using missing_context_bad_request
    [of unregistered_context licensed "()" "\<lparr>params = \<lparr>id' = ''1''\<rparr>\<rparr>" fresh_world]
  by (simp add: unregistered_context_def licensed_def badRequest_def prod_eq_iff)

text \<open>
  C2 as stated fails where the licence check throws: the context is absent, yet the
  handler throws the licence error instead of answering HTTP 400.
\<close>

theorem missing_context_bad_request_counterexample:
  "alerting unregistered_context = None \<and>
   fst (deleteAlertHandler unlicensed () unregistered_context \<lparr>params = \<lparr>id' = ''1''\<rparr>\<rparr> fresh_world) =
     Inl (Error ''License is not valid'')"
  by (simp add: deleteAlertHandler_def unlicensed_def licensed_def unregistered_context_def)

text \<open>
  C3. The route is registered with the method DELETE at the path
  \<^verbatim>\<open>{legacyBase}/alert/{id}\<close>, with \<open>paramSchema\<close> as the validation of its
  parameters; the schema accepts only parameters whose \<open>id\<close> is present and a string;
  a request that does not conform is rejected and the world is as before, so the handler
  has not run, and a request that conforms reaches the wrapped handler with its
  validated parameters.
\<close>

theorem delete_route_registered:
  "routes (deleteAlertRoute l router licenseState isServerless) =
     routes router @ [deleteRoute l router licenseState isServerless] \<and>
   route_method (deleteRoute l router licenseState isServerless) = DELETE \<and>
   path (deleteRoute l router licenseState isServerless) =
     LEGACY_BASE_ALERT_API_PATH l @ ''/alert/{id}'' \<and>
   validate_params (deleteRoute l router licenseState isServerless) = paramSchema \<and>
   (paramSchema raw = Some p \<longrightarrow> raw ''id'' = Some (JString (id' p))) \<and>
   ((\<forall>s. raw ''id'' \<noteq> Some (JString s)) \<longrightarrow> paramSchema raw = None) \<and>
   (paramSchema raw = None \<longrightarrow>
      dispatch (deleteRoute l router licenseState isServerless) context raw w = (Rejected, w)) \<and>
   (paramSchema raw = Some p \<longrightarrow>
      dispatch (deleteRoute l router licenseState isServerless) context raw w =
        (case handleLegacyErrors router (deleteAlertHandler l licenseState) context
                \<lparr>params = p\<rparr> w of
           (res, w') \<Rightarrow> (Handled res, w')))"
proof -
  have registered:
    "routes (deleteAlertRoute l router licenseState isServerless) =
       routes router @ [deleteRoute l router licenseState isServerless]"
    by (simp add: deleteRoute_def deleteAlertRoute_def router_delete_def)
  have fields:
    "route_method (deleteRoute l router licenseState isServerless) = DELETE"
    "path (deleteRoute l router licenseState isServerless) =
       LEGACY_BASE_ALERT_API_PATH l @ ''/alert/{id}''"
    "validate_params (deleteRoute l router licenseState isServerless) = paramSchema"
    "route_handler (deleteRoute l router licenseState isServerless) =
       handleLegacyErrors router (deleteAlertHandler l licenseState)"
    by (simp_all add: deleteRoute_def deleteAlertRoute_def router_delete_def)
  have rejected:
    "dispatch (deleteRoute l router licenseState isServerless) context raw w = (Rejected, w)"
    if "paramSchema raw = None"
    using that by (simp add: dispatch_def fields)
  have handled:
    "dispatch (deleteRoute l router licenseState isServerless) context raw w =
       (case handleLegacyErrors router (deleteAlertHandler l licenseState) context
               \<lparr>params = p\<rparr> w of
          (res, w') \<Rightarrow> (Handled res, w'))"
    if "paramSchema raw = Some p"
    using that by (simp add: dispatch_def fields)
  show ?thesis
    using registered fields(1-3) rejected handled paramSchema_Some [of raw p]
      paramSchema_None [of raw]
    by blast
qed

theorem delete_route_registered_witness:
  "path (deleteRoute licensed plain_router () None) = ''/api/alerts/alert/{id}'' \<and>
   paramSchema [''id'' \<mapsto> JNumber 5] = None \<and>
   dispatch (deleteRoute licensed plain_router () None) registered_context
       [''id'' \<mapsto> JNumber 5] fresh_world = (Rejected, fresh_world) \<and>
   paramSchema Map.empty = None \<and>
   dispatch (deleteRoute licensed plain_router () None) registered_context
       Map.empty fresh_world = (Rejected, fresh_world) \<and>
   paramSchema [''id'' \<mapsto> JString ''1''] = Some \<lparr>id' = ''1''\<rparr>"
  using delete_route_registered [of licensed plain_router "()" None "[''id'' \<mapsto> JNumber 5]"
      "\<lparr>id' = ''5''\<rparr>" registered_context fresh_world]
    delete_route_registered [of licensed plain_router "()" None Map.empty
      "\<lparr>id' = ''5''\<rparr>" registered_context fresh_world]
  by (simp add: licensed_def paramSchema_def schema_string_def)

text \<open>
  C4. The handler answers with a response of its own in two cases only: the success, and
  the missing alerting context, answered with HTTP 400 when the licence check has passed.
  Every failure (of the licence check, of the promise of the context, of
  \<^verbatim>\<open>getRulesClient\<close>, of the deletion) is thrown out of the handler unchanged, and the
  handler that the route registers is this one wrapped by \<^verbatim>\<open>handleLegacyErrors\<close>.
\<close>

theorem single_explicit_error:
  "(fst (deleteAlertHandler l licenseState context req w) = Inr r \<longrightarrow>
      r = noContent \<or>
      r = badRequest ''RouteHandlerContext is not registered for alerting'' \<and>
        verifyApiAccess l licenseState = None \<and> alerting context = None) \<and>
   (verifyApiAccess l licenseState = None \<and> alerting context = None \<longrightarrow>
      fst (deleteAlertHandler l licenseState context req w) =
        Inr (badRequest ''RouteHandlerContext is not registered for alerting'')) \<and>
   (fst (deleteAlertHandler l licenseState context req w) = Inl e) =
     (verifyApiAccess l licenseState = Some e \<or>
      verifyApiAccess l licenseState = None \<and>
        (alerting context = Some (Inl e) \<or>
         (\<exists>api. alerting context = Some (Inr api) \<and>
            (getRulesClient api = Inl e \<or>
             (\<exists>rulesClient. getRulesClient api = Inr rulesClient \<and>
                delete rulesClient (id' (params req)) = Some e))))) \<and>
   route_handler (deleteRoute l router licenseState isServerless) =
     handleLegacyErrors router (deleteAlertHandler l licenseState)"
  using handler_throws [of l licenseState "context" req w e]
    handler_answers [of l licenseState "context" req w r]
    handler_answers [of l licenseState "context" req w
      "badRequest ''RouteHandlerContext is not registered for alerting''"]
  by (auto simp: deleteRoute_def deleteAlertRoute_def router_delete_def)

theorem single_explicit_error_witness:
  "fst (deleteAlertHandler unlicensed () registered_context \<lparr>params = \<lparr>id' = ''1''\<rparr>\<rparr> fresh_world) =
     Inl (Error ''License is not valid'') \<and>
   fst (deleteAlertHandler licensed () unregistered_context \<lparr>params = \<lparr>id' = ''1''\<rparr>\<rparr> fresh_world) =
     Inr \<lparr>status = 400, body = Some ''RouteHandlerContext is not registered for alerting''\<rparr> \<and>
   fst (route_handler (deleteRoute unlicensed plain_router () None) registered_context
          \<lparr>params = \<lparr>id' = ''1''\<rparr>\<rparr> fresh_world) =
     Inr \<lparr>status = 500, body = Some ''License is not valid''\<rparr>"
proof -
  have thrown: "verifyApiAccess unlicensed () = Some (Error ''License is not valid'')"
    by (simp add: unlicensed_def)
  have absent: "verifyApiAccess licensed () = None \<and> alerting unregistered_context = None"
    by (simp add: licensed_def unregistered_context_def)
  have first: "fst (deleteAlertHandler unlicensed () registered_context
      \<lparr>params = \<lparr>id' = ''1''\<rparr>\<rparr> fresh_world) = Inl (Error ''License is not valid'')"
    using thrown single_explicit_error [of unlicensed "()" registered_context
      "\<lparr>params = \<lparr>id' = ''1''\<rparr>\<rparr>" fresh_world noContent "Error ''License is not valid''"
      plain_router None]
    by simp
  have second: "fst (deleteAlertHandler licensed () unregistered_context
      \<lparr>params = \<lparr>id' = ''1''\<rparr>\<rparr> fresh_world) =
      Inr (badRequest ''RouteHandlerContext is not registered for alerting'')"
    using absent single_explicit_error [of licensed "()" unregistered_context
      "\<lparr>params = \<lparr>id' = ''1''\<rparr>\<rparr>" fresh_world noContent "Error ''License is not valid''"
      plain_router None]
    by simp
  have wrapped: "route_handler (deleteRoute unlicensed plain_router () None) =
      handleLegacyErrors plain_router (deleteAlertHandler unlicensed ())"
    using single_explicit_error [of unlicensed "()" registered_context
      "\<lparr>params = \<lparr>id' = ''1''\<rparr>\<rparr>" fresh_world noContent "Error ''License is not valid''"
      plain_router None]
    by simp
  have third: "fst (handleLegacyErrors plain_router (deleteAlertHandler unlicensed ())
      registered_context \<lparr>params = \<lparr>id' = ''1''\<rparr>\<rparr> fresh_world) =
      Inr \<lparr>status = 500, body = Some ''License is not valid''\<rparr>"
    using first
    by (cases "deleteAlertHandler unlicensed () registered_context
          \<lparr>params = \<lparr>id' = ''1''\<rparr>\<rparr> fresh_world")
      (simp add: plain_router_def)
  show ?thesis
    using first second third wrapped by (simp add: badRequest_def)
qed

text \<open>
  C10. \<^verbatim>\<open>trackLegacyRouteUsage('delete', usageCounter)\<close> is invoked exactly when the
  licence check has passed and the alerting context is present, and then it is the first
  call of the handler; when the licence check throws and on the path of the missing
  context, the world, and the usage counter in it, is unchanged.
\<close>

theorem usage_tracked_after_checks:
  "(verifyApiAccess l licenseState \<noteq> None \<or> alerting context = None \<longrightarrow>
      snd (deleteAlertHandler l licenseState context req w) = w) \<and>
   (verifyApiAccess l licenseState = None \<and> alerting context \<noteq> None \<longrightarrow>
      usageCounter (snd (deleteAlertHandler l licenseState context req w)) =
        trackLegacyRouteUsage l ''delete'' (usageCounter w) \<and>
      take (Suc (length (calls w))) (calls (snd (deleteAlertHandler l licenseState context req w))) =
        calls w @ [TrackLegacyRouteUsage ''delete'']) \<and>
   (TrackLegacyRouteUsage ''delete''
      \<in> set (drop (length (calls w)) (calls (snd (deleteAlertHandler l licenseState context req w))))) =
     (verifyApiAccess l licenseState = None \<and> alerting context \<noteq> None)"
  by (auto simp: deleteAlertHandler_def Let_def split: option.splits sum.splits)

theorem usage_tracked_after_checks_witness:
  "snd (deleteAlertHandler unlicensed () registered_context \<lparr>params = \<lparr>id' = ''1''\<rparr>\<rparr> fresh_world) =
     fresh_world \<and>
   snd (deleteAlertHandler licensed () unregistered_context \<lparr>params = \<lparr>id' = ''1''\<rparr>\<rparr> fresh_world) =
     fresh_world \<and>
   usageCounter (snd (deleteAlertHandler licensed () registered_context
       \<lparr>params = \<lparr>id' = ''1''\<rparr>\<rparr> fresh_world)) = 1"
  using usage_tracked_after_checks [of unlicensed "()" registered_context
      "\<lparr>params = \<lparr>id' = ''1''\<rparr>\<rparr>" fresh_world]
    usage_tracked_after_checks [of licensed "()" unregistered_context
      "\<lparr>params = \<lparr>id' = ''1''\<rparr>\<rparr>" fresh_world]
    usage_tracked_after_checks [of licensed "()" registered_context
      "\<lparr>params = \<lparr>id' = ''1''\<rparr>\<rparr>" fresh_world]
  by (simp add: unlicensed_def licensed_def unregistered_context_def registered_context_def
        fresh_world_def)

section \<open>Properties of the rule definition step\<close>

lemmas effect_defs =
  render_def mountQueryField_def fieldReplaced_def customQueryEffect_def esqlQueryEffect_def
  reset_def isThreatMatchRule_def isEsqlRule_def isEqlRule_def defaultCustomQuery_def
  defaultFor_def Let_def

text \<open>
  A render with the rule type of the render before changes nothing, so only a change of
  the rule type matters; a render that changes neither into nor out of EQL starts from
  the field as it is; and without a field for the effects to find, a render only records
  its rule type.
\<close>

lemma render_same_type: "previousRuleType s = Some t \<Longrightarrow> render t mounted s = s"
  by (cases "queryBar s") (auto simp: effect_defs)

lemma mountQueryField_kept:
  "t \<noteq> Eql \<Longrightarrow> previousRuleType s \<noteq> Some Eql \<Longrightarrow> mountQueryField t mounted s = s"
  by (simp add: mountQueryField_def fieldReplaced_def isEqlRule_def)

lemma render_queryBar_None:
  "queryBar (mountQueryField t mounted s) = None \<Longrightarrow>
   render t mounted s = (mountQueryField t mounted s)\<lparr>previousRuleType := Some t\<rparr>"
  by (simp add: render_def customQueryEffect_def esqlQueryEffect_def)

text \<open>
  The second effect reads the value of the field after the first one has run. Where it
  reads an ES|QL query, on leaving ES|QL, the first effect has not touched the field, so
  it reads the value of the render.
\<close>

lemma leaving_esql_custom_effect:
  "queryBar s = Some v \<Longrightarrow> language (query v) = ''esql'' \<Longrightarrow>
   customQueryEffect t (Some Esql) s = s"
  by (auto simp: effect_defs)

text \<open>
  C5 (as amended). Whenever the rule type changes, with the query field in the form when
  the effects run: on a switch away from ES|QL the field is reset to the default of the
  new rule type, whatever it holds; on a switch to ES|QL it is set to the ES|QL query
  saved before, or to the ES|QL default when none is saved; on a switch between two rule
  types other than ES|QL it ends at the default of the new rule type when it still equals
  the default of the rule type that is left. The default is \<^verbatim>\<open>*:*\<close> for threat_match
  and the empty query for the rule types other than threat_match and ES|QL. On a switch
  into or out of EQL the field is the one that has replaced the query component.
\<close>

theorem custom_query_reset_to_default:
  "queryBar (mountQueryField t mounted s) = Some v \<Longrightarrow>
   previousRuleType s = Some p \<Longrightarrow>
   p \<noteq> t \<Longrightarrow>
   (p = Esql \<longrightarrow> queryBar (render t mounted s) = Some (defaultFor (Some t))) \<and>
   (t = Esql \<longrightarrow>
      queryBar (render t mounted s) =
        Some (case esqlQueryRef s of Some saved \<Rightarrow> saved | None \<Rightarrow> defaultFor (Some Esql))) \<and>
   (p \<noteq> Esql \<and> t \<noteq> Esql \<and> v = defaultFor (Some p) \<longrightarrow>
      queryBar (render t mounted s) = Some (defaultFor (Some t))) \<and>
   defaultFor (Some ThreatMatch) = \<lparr>query = \<lparr>query_text = ''*:*'', language = ''kuery''\<rparr>\<rparr> \<and>
   (t \<noteq> ThreatMatch \<and> t \<noteq> Esql \<longrightarrow>
      defaultFor (Some t) = \<lparr>query = \<lparr>query_text = '''', language = ''kuery''\<rparr>\<rparr>)"
proof -
  assume found: "queryBar (mountQueryField t mounted s) = Some v"
    and previous: "previousRuleType s = Some p" and changed: "p \<noteq> t"
  have unchanged:
    "previousRuleType (mountQueryField t mounted s) = Some p"
    "esqlQueryRef (mountQueryField t mounted s) = esqlQueryRef s"
    using previous by (simp_all add: mountQueryField_def)
  have leaving: "queryBar (render t mounted s) = Some (defaultFor (Some t))" if "p = Esql"
    using that found previous changed unchanged
    by (auto simp: render_def customQueryEffect_def esqlQueryEffect_def reset_def
          isThreatMatchRule_def isEsqlRule_def defaultCustomQuery_def defaultFor_def Let_def)
  have entering: "queryBar (render t mounted s) =
      Some (case esqlQueryRef s of Some saved \<Rightarrow> saved | None \<Rightarrow> defaultFor (Some Esql))"
    if "t = Esql"
    using that found previous changed unchanged
    by (cases "esqlQueryRef s")
      (auto simp: render_def customQueryEffect_def esqlQueryEffect_def reset_def
          isThreatMatchRule_def isEsqlRule_def defaultCustomQuery_def defaultFor_def Let_def)
  have between: "queryBar (render t mounted s) = Some (defaultFor (Some t))"
    if "p \<noteq> Esql" "t \<noteq> Esql" "v = defaultFor (Some p)"
    using that found previous changed unchanged
    by (auto simp: render_def customQueryEffect_def esqlQueryEffect_def reset_def
          isThreatMatchRule_def isEsqlRule_def defaultCustomQuery_def defaultFor_def Let_def)
  have defaults:
    "defaultFor (Some ThreatMatch) = \<lparr>query = \<lparr>query_text = ''*:*'', language = ''kuery''\<rparr>\<rparr>"
    "t \<noteq> ThreatMatch \<and> t \<noteq> Esql \<longrightarrow>
       defaultFor (Some t) = \<lparr>query = \<lparr>query_text = '''', language = ''kuery''\<rparr>\<rparr>"
    by (simp_all add: defaultFor_def isThreatMatchRule_def isEsqlRule_def defaultCustomQuery_def)
  show ?thesis
    using leaving entering between defaults by blast
qed

theorem custom_query_reset_to_default_witness:
  "queryBar (render ThreatMatch None
      \<lparr>queryBar = Some (forNormalRules defaultCustomQuery), esqlQueryRef = None,
       previousRuleType = Some Query\<rparr>) = Some \<lparr>query = \<lparr>query_text = ''*:*'', language = ''kuery''\<rparr>\<rparr> \<and>
   queryBar (render Query None
      \<lparr>queryBar = Some (forThreatMatchRules defaultCustomQuery), esqlQueryRef = None,
       previousRuleType = Some ThreatMatch\<rparr>) = Some \<lparr>query = \<lparr>query_text = '''', language = ''kuery''\<rparr>\<rparr> \<and>
   queryBar (render ThreatMatch None
      \<lparr>queryBar = Some user_esql_query, esqlQueryRef = None,
       previousRuleType = Some Esql\<rparr>) = Some \<lparr>query = \<lparr>query_text = ''*:*'', language = ''kuery''\<rparr>\<rparr> \<and>
   queryBar (render Esql None
      \<lparr>queryBar = Some user_query, esqlQueryRef = Some user_esql_query,
       previousRuleType = Some ThreatMatch\<rparr>) = Some user_esql_query"
  using custom_query_reset_to_default
      [of ThreatMatch None
          "\<lparr>queryBar = Some (forNormalRules defaultCustomQuery), esqlQueryRef = None,
            previousRuleType = Some Query\<rparr>" "forNormalRules defaultCustomQuery" Query]
    custom_query_reset_to_default
      [of Query None
          "\<lparr>queryBar = Some (forThreatMatchRules defaultCustomQuery), esqlQueryRef = None,
            previousRuleType = Some ThreatMatch\<rparr>" "forThreatMatchRules defaultCustomQuery"
          ThreatMatch]
    custom_query_reset_to_default
      [of ThreatMatch None
          "\<lparr>queryBar = Some user_esql_query, esqlQueryRef = None,
            previousRuleType = Some Esql\<rparr>" user_esql_query Esql]
    custom_query_reset_to_default
      [of Esql None
          "\<lparr>queryBar = Some user_query, esqlQueryRef = Some user_esql_query,
            previousRuleType = Some ThreatMatch\<rparr>" user_query ThreatMatch]
  by (simp add: mountQueryField_def fieldReplaced_def isEqlRule_def defaultFor_def
        isThreatMatchRule_def isEsqlRule_def defaultCustomQuery_def)

text \<open>
  C5 as stated fails for a query that the user has typed: on the switch from query to
  threat_match it stays as it is. It fails on the switch from threat_match to ES|QL as
  well, which ends at the saved ES|QL query and not at the default of the normal rules.
  Neither switch replaces the query component.
\<close>

theorem custom_query_reset_to_default_counterexample:
  "render ThreatMatch None
     \<lparr>queryBar = Some user_query, esqlQueryRef = None, previousRuleType = Some Query\<rparr> =
     \<lparr>queryBar = Some user_query, esqlQueryRef = None, previousRuleType = Some ThreatMatch\<rparr> \<and>
   user_query \<noteq> forThreatMatchRules defaultCustomQuery \<and>
   render Esql None
     \<lparr>queryBar = Some (forThreatMatchRules defaultCustomQuery),
      esqlQueryRef = Some user_esql_query, previousRuleType = Some ThreatMatch\<rparr> =
     \<lparr>queryBar = Some user_esql_query, esqlQueryRef = Some user_esql_query,
      previousRuleType = Some Esql\<rparr> \<and>
   user_esql_query \<noteq> forNormalRules defaultCustomQuery"
  by (simp add: effect_defs user_query_def user_esql_query_def)

text \<open>
  C8 (as amended). On a change of the rule type into or out of threat_match in which
  neither rule type is ES|QL, a query field that differs from the default of the previous
  rule type when the effects run is not reset by them; and when neither rule type is EQL
  either, so that the query component is not replaced, the render leaves the value that
  the user has entered, and the saved ES|QL query, as they were.
\<close>

theorem modified_query_survives:
  "queryBar (mountQueryField t mounted s) = Some v \<Longrightarrow>
   (t = ThreatMatch) \<noteq> (previousRuleType s = Some ThreatMatch) \<Longrightarrow>
   v \<noteq> defaultFor (previousRuleType s) \<Longrightarrow>
   t \<noteq> Esql \<Longrightarrow>
   previousRuleType s \<noteq> Some Esql \<Longrightarrow>
   render t mounted s = (mountQueryField t mounted s)\<lparr>previousRuleType := Some t\<rparr> \<and>
   (t \<noteq> Eql \<and> previousRuleType s \<noteq> Some Eql \<longrightarrow>
      render t mounted s = s\<lparr>previousRuleType := Some t\<rparr>)"
proof -
  assume found: "queryBar (mountQueryField t mounted s) = Some v"
    and change: "(t = ThreatMatch) \<noteq> (previousRuleType s = Some ThreatMatch)"
    and modified: "v \<noteq> defaultFor (previousRuleType s)"
    and no_esql: "t \<noteq> Esql" "previousRuleType s \<noteq> Some Esql"
  have previous: "previousRuleType (mountQueryField t mounted s) = previousRuleType s"
    by (simp add: mountQueryField_def)
  have effects: "render t mounted s = (mountQueryField t mounted s)\<lparr>previousRuleType := Some t\<rparr>"
    using found change modified no_esql previous
    by (auto simp: render_def customQueryEffect_def esqlQueryEffect_def reset_def
          isThreatMatchRule_def isEsqlRule_def defaultCustomQuery_def defaultFor_def Let_def)
  then show ?thesis
    by (simp add: mountQueryField_kept)
qed

theorem modified_query_survives_witness:
  "render ThreatMatch None
     \<lparr>queryBar = Some user_query, esqlQueryRef = None, previousRuleType = Some Query\<rparr> =
     \<lparr>queryBar = Some user_query, esqlQueryRef = None, previousRuleType = Some ThreatMatch\<rparr> \<and>
   render Query None
     \<lparr>queryBar = Some user_query, esqlQueryRef = None, previousRuleType = Some ThreatMatch\<rparr> =
     \<lparr>queryBar = Some user_query, esqlQueryRef = None, previousRuleType = Some Query\<rparr>"
  using modified_query_survives
      [of ThreatMatch None
          "\<lparr>queryBar = Some user_query, esqlQueryRef = None, previousRuleType = Some Query\<rparr>"
          user_query]
    modified_query_survives
      [of Query None
          "\<lparr>queryBar = Some user_query, esqlQueryRef = None, previousRuleType = Some ThreatMatch\<rparr>"
          user_query]
  by (simp add: mountQueryField_def fieldReplaced_def isEqlRule_def defaultFor_def
        isThreatMatchRule_def isEsqlRule_def defaultCustomQuery_def user_query_def)

text \<open>
  C8 as stated fails on the changes between threat_match and ES|QL, which do not replace
  the query component: a typed ES|QL query, which is not the ES|QL default, is replaced by
  \<^verbatim>\<open>*:*\<close> on the switch to threat_match, and a typed custom query, which is not the
  threat-match default, is replaced by the ES|QL default on the switch to ES|QL.
\<close>

theorem modified_query_survives_counterexample:
  "user_esql_query \<noteq> defaultFor (Some Esql) \<and>
   queryBar (render ThreatMatch None
      \<lparr>queryBar = Some user_esql_query, esqlQueryRef = None, previousRuleType = Some Esql\<rparr>) =
     Some (forThreatMatchRules defaultCustomQuery) \<and>
   user_query \<noteq> defaultFor (Some ThreatMatch) \<and>
   queryBar (render Esql None
      \<lparr>queryBar = Some user_query, esqlQueryRef = None, previousRuleType = Some ThreatMatch\<rparr>) =
     Some (forEsqlRules defaultCustomQuery)"
  by (simp add: effect_defs user_query_def user_esql_query_def)

subsection \<open>The ES|QL query across a change of the rule type\<close>

text \<open>
  Where the query component is not replaced, the second effect does what its comment
  says: leaving ES|QL for a rule type other than EQL saves a query of the language
  \<^verbatim>\<open>esql\<close>, the saved query outlasts what the user types and every render with a rule
  type other than ES|QL and EQL, and the switch back to ES|QL restores it.
\<close>

lemma esql_kept_step:
  "esql_kept v s \<Longrightarrow> \<not> is_esql_or_eql_render e \<Longrightarrow> esql_kept v (form_step e s)"
  by (cases e) (auto simp: esql_kept_def effect_defs split: option.splits)

lemma esql_kept_run:
  "esql_kept v s \<Longrightarrow> \<not> list_ex is_esql_or_eql_render es \<Longrightarrow> esql_kept v (form_run es s)"
  by (induction es arbitrary: s) (simp_all add: esql_kept_step)

lemma esql_kept_leaving:
  "queryBar s = Some v \<Longrightarrow> language (query v) = ''esql'' \<Longrightarrow>
   previousRuleType s = Some Esql \<Longrightarrow> t \<noteq> Esql \<Longrightarrow> t \<noteq> Eql \<Longrightarrow>
   esql_kept v (render t mounted s)"
  by (auto simp: esql_kept_def effect_defs)

lemma esql_kept_back: "esql_kept v s \<Longrightarrow> queryBar (render Esql mounted s) = Some v"
  by (auto simp: esql_kept_def effect_defs split: option.splits)

lemma esql_round_trip_without_eql:
  "queryBar s = Some v \<Longrightarrow> language (query v) = ''esql'' \<Longrightarrow>
   previousRuleType s = Some Esql \<Longrightarrow> t \<noteq> Esql \<Longrightarrow> t \<noteq> Eql \<Longrightarrow>
   \<not> list_ex is_esql_or_eql_render es \<Longrightarrow>
   queryBar (render Esql mounted' (form_run es (render t mounted s))) = Some v"
  by (rule esql_kept_back [OF esql_kept_run [OF esql_kept_leaving]])

text \<open>
  C9. The round trip through EQL: the switch from ES|QL to EQL replaces the query
  component, and the second effect reads the field that the form then holds. Unless that
  field holds a query of the language \<^verbatim>\<open>esql\<close>, nothing is saved, whatever ES|QL query
  was written; so with no query saved before, the switch back to ES|QL ends at the ES|QL
  default and the written query is lost, as the comment on the effect says.
\<close>

theorem esql_query_lost_through_eql:
  "previousRuleType s = Some Esql \<Longrightarrow>
   (\<forall>u. mounted = Some u \<longrightarrow> language (query u) \<noteq> ''esql'') \<Longrightarrow>
   esqlQueryRef (render Eql mounted s) = esqlQueryRef s \<and>
   (esqlQueryRef s = None \<and> mounted' \<noteq> None \<longrightarrow>
      queryBar (render Esql mounted' (render Eql mounted s)) =
        Some (forEsqlRules defaultCustomQuery))"
proof -
  assume previous: "previousRuleType s = Some Esql"
    and fresh: "\<forall>u. mounted = Some u \<longrightarrow> language (query u) \<noteq> ''esql''"
  have not_saved: "esqlQueryRef (render Eql mounted s) = esqlQueryRef s"
    using fresh previous
    by (cases mounted) (auto simp: effect_defs)
  have now_eql: "previousRuleType (render Eql mounted s) = Some Eql"
    by (simp add: render_def)
  have lost: "queryBar (render Esql mounted' (render Eql mounted s)) =
      Some (forEsqlRules defaultCustomQuery)"
    if "esqlQueryRef s = None" "mounted' \<noteq> None"
    using that not_saved now_eql
    by (cases mounted')
      (auto simp: render_def [of Esql] mountQueryField_def fieldReplaced_def isEqlRule_def
          customQueryEffect_def esqlQueryEffect_def reset_def isThreatMatchRule_def
          isEsqlRule_def Let_def)
  show ?thesis
    using not_saved lost by blast
qed

theorem esql_query_lost_through_eql_witness:
  "queryBar (render Esql (Some (forNormalRules defaultCustomQuery))
      (render Eql (Some (forNormalRules defaultCustomQuery))
         \<lparr>queryBar = Some user_esql_query, esqlQueryRef = None,
          previousRuleType = Some Esql\<rparr>)) =
     Some \<lparr>query = \<lparr>query_text = '''', language = ''esql''\<rparr>\<rparr> \<and>
   user_esql_query \<noteq> \<lparr>query = \<lparr>query_text = '''', language = ''esql''\<rparr>\<rparr>"
  using esql_query_lost_through_eql
      [of "\<lparr>queryBar = Some user_esql_query, esqlQueryRef = None,
            previousRuleType = Some Esql\<rparr>" "Some (forNormalRules defaultCustomQuery)"
          "Some (forNormalRules defaultCustomQuery)"]
  by (simp add: defaultCustomQuery_def user_esql_query_def)

section \<open>Properties of the dashboard\<close>

lemma embeddableError_missing:
  "p \<in> set ps \<Longrightarrow> dataViewId p \<notin> set dataViews \<Longrightarrow>
   \<exists>q \<in> set ps. dataViewId q \<notin> set dataViews \<and>
     embeddableError (map (renderPanel detail dataViews) ps) =
       Some (''Could not locate that data view'' @ detail (dataViewId q))"
proof (induction ps)
  case Nil
  then show ?case by simp
next
  case (Cons a ps)
  show ?case
  proof (cases "dataViewId a \<in> set dataViews")
    case True
    with Cons show ?thesis by (auto simp: renderPanel_def)
  next
    case False
    then show ?thesis by (auto simp: renderPanel_def)
  qed
qed

text \<open>
  C6. Loading a saved dashboard with a panel on a data view that is missing surfaces an
  embeddable error whose visible text contains \<^verbatim>\<open>Could not locate that data view\<close>.
\<close>

theorem missing_data_view_error:
  "p \<in> set (panels d) \<Longrightarrow> dataViewId p \<notin> set dataViews \<Longrightarrow>
   \<exists>t. embeddableError (loadSavedDashboard detail dataViews d) = Some t \<and>
       sublist ''Could not locate that data view'' t"
  using embeddableError_missing [of p "panels d" dataViews detail]
  by (auto simp: loadSavedDashboard_def)

theorem missing_data_view_error_witness:
  "embeddableError (loadSavedDashboard (\<lambda>i. '' (id: '' @ i @ '')'') [''logstash-*'']
      \<lparr>dashboard_title = ''dashboard with missing index pattern'',
       panels = [\<lparr>panel_title = ''all requests'', dataViewId = ''logstash-*''\<rparr>,
                 \<lparr>panel_title = ''missing'', dataViewId = ''to-be-deleted''\<rparr>]\<rparr>) =
     Some ''Could not locate that data view (id: to-be-deleted)'' \<and>
   sublist ''Could not locate that data view''
     ''Could not locate that data view (id: to-be-deleted)''"
  using missing_data_view_error
      [of "\<lparr>panel_title = ''missing'', dataViewId = ''to-be-deleted''\<rparr>"
          "\<lparr>dashboard_title = ''dashboard with missing index pattern'',
            panels = [\<lparr>panel_title = ''all requests'', dataViewId = ''logstash-*''\<rparr>,
                      \<lparr>panel_title = ''missing'', dataViewId = ''to-be-deleted''\<rparr>]\<rparr>"
          "[''logstash-*'']" "\<lambda>i. '' (id: '' @ i @ '')''"]
  by (simp add: loadSavedDashboard_def renderPanel_def)

text \<open>
  C7. After the steps of the test (the query typed, the left arrow, the space bar, the
  interval control created), the editor holds
  \<^verbatim>\<open>FROM logstash* | STATS COUNT(*) BY BUCKET(@timestamp,  ?interval)\<close>, so its value
  contains that text; and whatever the editor holds, creating an interval control leaves
  a \<^verbatim>\<open>?interval\<close> placeholder in the query.
\<close>

theorem interval_control_rewrites_query:
  "getEsqlEditorQuery (createIntervalControl (pressSpace (pressArrowLeft
      (typeEsqlEditorQuery ''FROM logstash* | STATS COUNT(*) BY BUCKET(@timestamp, )'')))) =
     ''FROM logstash* | STATS COUNT(*) BY BUCKET(@timestamp,  ?interval)'' \<and>
   sublist ''FROM logstash* | STATS COUNT(*) BY BUCKET(@timestamp,  ?interval)''
     (getEsqlEditorQuery (createIntervalControl (pressSpace (pressArrowLeft
        (typeEsqlEditorQuery ''FROM logstash* | STATS COUNT(*) BY BUCKET(@timestamp, )''))))) \<and>
   sublist ''?interval'' (getEsqlEditorQuery (createIntervalControl e))"
proof -
  have "getEsqlEditorQuery (createIntervalControl (pressSpace (pressArrowLeft
      (typeEsqlEditorQuery ''FROM logstash* | STATS COUNT(*) BY BUCKET(@timestamp, )'')))) =
     ''FROM logstash* | STATS COUNT(*) BY BUCKET(@timestamp,  ?interval)''"
    by (simp add: getEsqlEditorQuery_def createIntervalControl_def pressSpace_def
          pressArrowLeft_def typeEsqlEditorQuery_def)
  moreover have "getEsqlEditorQuery (createIntervalControl e) =
      before_cursor e @ ''?interval'' @ after_cursor e"
    by (simp add: getEsqlEditorQuery_def createIntervalControl_def)
  then have "sublist ''?interval'' (getEsqlEditorQuery (createIntervalControl e))"
    by (simp only: sublist_appendI)
  ultimately show ?thesis by (simp only: sublist_order.order_refl simp_thms)
qed

end
